theory Spec2Isabelle
  imports Complex_Main "HOL-Library.Char_ord" "HOL-Library.List_Lexorder" "HOL-Library.Product_Lexorder"
begin

section \<open>Python strings\<close>

text \<open>
  A Python \<open>str\<close> is a sequence of code points. The model is \<^typ>\<open>string\<close>, one
  \<^typ>\<open>char\<close> per code point, so it covers the code points 0..255 (ASCII and Latin-1).
  The character predicates below are those of Python's Unicode database on that range.
\<close>

definition cp :: "char \<Rightarrow> nat" where
  "cp c = of_char c"

definition in_range :: "nat \<Rightarrow> nat \<Rightarrow> char \<Rightarrow> bool" where
  "in_range lo hi c = (lo \<le> cp c \<and> cp c \<le> hi)"

text \<open>\<open>str.isspace\<close>, also the class \<open>\s\<close> of \<open>re\<close>.\<close>

definition py_isspace :: "char \<Rightarrow> bool" where
  "py_isspace c = (in_range 9 13 c \<or> in_range 28 32 c \<or> cp c = 133 \<or> cp c = 160)"

definition ascii_upper :: "char \<Rightarrow> bool" where
  "ascii_upper c = in_range 65 90 c"

definition ascii_lower :: "char \<Rightarrow> bool" where
  "ascii_lower c = in_range 97 122 c"

definition ascii_alpha :: "char \<Rightarrow> bool" where
  "ascii_alpha c = (ascii_upper c \<or> ascii_lower c)"

text \<open>\<open>\d\<close> of \<open>re\<close>: the decimal digits.\<close>

definition re_digit :: "char \<Rightarrow> bool" where
  "re_digit c = in_range 48 57 c"

text \<open>\<open>str.isupper\<close> on one character.\<close>

definition py_isupper :: "char \<Rightarrow> bool" where
  "py_isupper c = (ascii_upper c \<or> in_range 192 214 c \<or> in_range 216 222 c)"

text \<open>\<open>str.isalnum\<close> on one character: alphabetic, decimal, digit or numeric.\<close>

definition py_isalnum :: "char \<Rightarrow> bool" where
  "py_isalnum c = (ascii_alpha c \<or> re_digit c \<or> cp c = 170 \<or> cp c = 178 \<or> cp c = 179
     \<or> cp c = 181 \<or> cp c = 185 \<or> cp c = 186 \<or> in_range 188 190 c
     \<or> in_range 192 214 c \<or> in_range 216 246 c \<or> in_range 248 255 c)"

text \<open>\<open>\w\<close> of \<open>re\<close>: alphanumeric or the underscore.\<close>

definition re_word :: "char \<Rightarrow> bool" where
  "re_word c = (py_isalnum c \<or> c = CHR ''_'')"

definition lower_char :: "char \<Rightarrow> char" where
  "lower_char c = (if py_isupper c then char_of (cp c + 32) else c)"

definition py_lower :: "string \<Rightarrow> string" where
  "py_lower s = map lower_char s"

text \<open>\<open>str.strip()\<close>: whitespace removed at both ends.\<close>

definition lstrip :: "string \<Rightarrow> string" where
  "lstrip s = dropWhile py_isspace s"

definition py_strip :: "string \<Rightarrow> string" where
  "py_strip s = rev (lstrip (rev (lstrip s)))"

text \<open>\<open>str.split()\<close>: the maximal runs of non-whitespace characters.\<close>

fun split_acc :: "string \<Rightarrow> string \<Rightarrow> string list" where
  "split_acc w [] = (if w = [] then [] else [rev w])"
| "split_acc w (c # cs) =
     (if py_isspace c then (if w = [] then split_acc [] cs else rev w # split_acc [] cs)
      else split_acc (c # w) cs)"

definition py_split :: "string \<Rightarrow> string list" where
  "py_split s = split_acc [] s"

text \<open>\<open>sub in s\<close> on strings.\<close>

fun is_substr :: "string \<Rightarrow> string \<Rightarrow> bool" where
  "is_substr sub [] = (sub = [])"
| "is_substr sub (c # cs) = (take (length sub) (c # cs) = sub \<or> is_substr sub cs)"



section \<open>Regular expressions\<close>

text \<open>
  The patterns of the source use classes, literals, sequence, alternative, greedy
  repetition of a class, \<open>\b\<close> and \<open>$\<close>. A cursor is a position in the subject: the
  character before it and the text from it on. \<open>ends r c\<close> lists the cursors at which a
  match of \<open>r\<close> started at \<open>c\<close> can end, in the order in which the backtracking matcher
  of \<open>re\<close> tries them (a greedy repetition tries the longest run first), so the head of
  the list is the match \<open>re\<close> reports.
\<close>

type_synonym cursor = "char option \<times> string"

datatype rx =
    Eps
  | Cls "char \<Rightarrow> bool"
  | Seq rx rx
  | Alt rx rx
  | Many "char \<Rightarrow> bool" nat "nat option"
  | Bnd
  | Eos

fun runs :: "(char \<Rightarrow> bool) \<Rightarrow> char option \<Rightarrow> string \<Rightarrow> (nat \<times> cursor) list" where
  "runs p prev [] = [(0, (prev, []))]"
| "runs p prev (x # xs) =
     (if p x then map (\<lambda>(k, c). (Suc k, c)) (runs p (Some x) xs) else []) @ [(0, (prev, x # xs))]"

definition rep_ok :: "nat \<Rightarrow> nat option \<Rightarrow> nat \<Rightarrow> bool" where
  "rep_ok lo hi k = (lo \<le> k \<and> (case hi of None \<Rightarrow> True | Some h \<Rightarrow> k \<le> h))"

definition word_before :: "cursor \<Rightarrow> bool" where
  "word_before c = (case fst c of None \<Rightarrow> False | Some x \<Rightarrow> re_word x)"

definition word_after :: "cursor \<Rightarrow> bool" where
  "word_after c = (case snd c of [] \<Rightarrow> False | x # _ \<Rightarrow> re_word x)"

fun ends :: "rx \<Rightarrow> cursor \<Rightarrow> cursor list" where
  "ends Eps c = [c]"
| "ends (Cls p) c = (case snd c of [] \<Rightarrow> [] | x # xs \<Rightarrow> if p x then [(Some x, xs)] else [])"
| "ends (Seq a b) c = concat (map (ends b) (ends a c))"
| "ends (Alt a b) c = ends a c @ ends b c"
| "ends (Many p lo hi) c = map snd (filter (\<lambda>(k, _). rep_ok lo hi k) (runs p (fst c) (snd c)))"
| "ends Bnd c = (if word_before c \<noteq> word_after c then [c] else [])"
| "ends Eos c = (if snd c = [] \<or> snd c = [CHR 0x0A] then [c] else [])"

text \<open>Every position of a subject, from the left.\<close>

fun cursors :: "char option \<Rightarrow> string \<Rightarrow> cursor list" where
  "cursors prev [] = [(prev, [])]"
| "cursors prev (x # xs) = (prev, x # xs) # cursors (Some x) xs"

text \<open>\<open>re.search(r, s)\<close> as a truth value.\<close>

definition re_search :: "rx \<Rightarrow> string \<Rightarrow> bool" where
  "re_search r s = list_ex (\<lambda>c. ends r c \<noteq> []) (cursors None s)"

text \<open>Pattern building: a literal string, with or without \<open>re.IGNORECASE\<close>.\<close>

definition chr_is :: "char \<Rightarrow> char \<Rightarrow> bool" where
  "chr_is a c = (c = a)"

definition chr_ci :: "char \<Rightarrow> char \<Rightarrow> bool" where
  "chr_ci a c = (lower_char c = lower_char a)"

fun lit :: "string \<Rightarrow> rx" where
  "lit [] = Eps"
| "lit (a # as) = Seq (Cls (chr_is a)) (lit as)"

fun lit_ci :: "string \<Rightarrow> rx" where
  "lit_ci [] = Eps"
| "lit_ci (a # as) = Seq (Cls (chr_ci a)) (lit_ci as)"

definition opt :: "rx \<Rightarrow> rx" where
  "opt r = Alt r Eps"

definition one_of :: "string \<Rightarrow> char \<Rightarrow> bool" where
  "one_of cs c = (c \<in> set cs)"

fun seqs :: "rx list \<Rightarrow> rx" where
  "seqs [] = Eps"
| "seqs (r # rs) = Seq r (seqs rs)"

fun alts :: "rx list \<Rightarrow> rx" where
  "alts [] = Seq Bnd (Seq (Cls (\<lambda>_. True)) Bnd)"
| "alts [r] = r"
| "alts (r # rs) = Alt r (alts rs)"


text \<open>
  A pattern with one capturing group is given by the part before the group, the group
  and the part after it. \<open>ends_group\<close> lists, in the matcher's order, the captured text
  with the cursor where the whole match ends.
\<close>

definition consumed :: "cursor \<Rightarrow> cursor \<Rightarrow> string" where
  "consumed c e = take (length (snd c) - length (snd e)) (snd c)"

definition ends_group :: "rx \<Rightarrow> rx \<Rightarrow> rx \<Rightarrow> cursor \<Rightarrow> (string \<times> cursor) list" where
  "ends_group pre g post c =
     concat (map (\<lambda>c1. concat (map (\<lambda>c2. map (\<lambda>c3. (consumed c1 c2, c3)) (ends post c2))
                                      (ends g c1)))
                 (ends pre c))"

text \<open>
  \<open>re.findall\<close> and \<open>re.finditer\<close> for such a pattern: the group of every match,
  scanning from the left and resuming where the last match ended. None of the source's
  patterns matches the empty string; after an empty match the scan moves one character on.
\<close>

function findall_from :: "rx \<Rightarrow> rx \<Rightarrow> rx \<Rightarrow> cursor \<Rightarrow> string list" where
  "findall_from pre g post c =
     (case ends_group pre g post c of
        (grp, e) # _ \<Rightarrow>
          (if length (snd e) < length (snd c) then grp # findall_from pre g post e
           else (case snd c of [] \<Rightarrow> [grp] | x # xs \<Rightarrow> grp # findall_from pre g post (Some x, xs)))
      | [] \<Rightarrow> (case snd c of [] \<Rightarrow> [] | x # xs \<Rightarrow> findall_from pre g post (Some x, xs)))"
  by pat_completeness auto
termination
  by (relation "measure (\<lambda>(pre, g, post, c). length (snd c))") auto

definition re_findall :: "rx \<Rightarrow> rx \<Rightarrow> rx \<Rightarrow> string \<Rightarrow> string list" where
  "re_findall pre g post s = findall_from pre g post (None, s)"

section \<open>parser.py\<close>

text \<open>\<open>re.sub(r"\s+", " ", t)\<close>: every maximal run of whitespace becomes one space.\<close>

fun collapse_from :: "bool \<Rightarrow> string \<Rightarrow> string" where
  "collapse_from in_run [] = []"
| "collapse_from in_run (c # cs) =
     (if py_isspace c then (if in_run then collapse_from True cs else CHR '' '' # collapse_from True cs)
      else c # collapse_from False cs)"

definition collapse_ws :: "string \<Rightarrow> string" where
  "collapse_ws s = collapse_from False s"

definition normalize :: "string \<Rightarrow> string" where
  "normalize text = (if text = [] then [] else py_strip (collapse_ws (py_lower text)))"

section \<open>The data model\<close>

text \<open>
  One element of the resume structure: the parser's dictionary with the keys \<open>type\<close>,
  \<open>content\<close>, \<open>font_size\<close> and \<open>page\<close>. Tables and images carry no font size and
  images no content, so both are optional; \<open>None\<close> is the missing key.
\<close>

datatype kind = Heading | Bullet | Table | Image | Text

record element =
  kind :: kind
  content :: "string option"
  font_size :: "real option"
  page :: nat

text \<open>\<open>it.get("content", "")\<close> and \<open>it.get("content") or ""\<close>.\<close>

definition get_content :: "element \<Rightarrow> string" where
  "get_content it = (case content it of None \<Rightarrow> [] | Some s \<Rightarrow> s)"

text \<open>
  The collaborators of the engine, as functions of their input. \<open>None\<close> is a raised
  exception. A SkillNER annotation holds the \<open>doc_node_value\<close> of every full match and of
  every scored n-gram with its optional \<open>score\<close>. A spaCy document is read through its
  text, the number of tokens that are neither punctuation nor space in each sentence, the
  part of speech of its first such token, and its entities (text and label).
\<close>

record annotations =
  full_matches :: "string list"
  ngram_scored :: "(string \<times> real option) list"

record doc =
  doc_text :: string
  sents :: "nat list"
  first_pos :: "string option"
  ents :: "(string \<times> string) list"

record collaborators =
  annotate :: "string \<Rightarrow> annotations option"
  nlp :: "string \<Rightarrow> doc option"
  tfidf_cosine :: "string \<Rightarrow> string \<Rightarrow> real option"
  format_1f :: "real \<Rightarrow> string"

datatype error = ValueError

section \<open>ats\_calculator.py\<close>

datatype debug_value = DStr string | DInt int

text \<open>
  The state of an \<open>ATSCalculator\<close>. \<open>skill_extractor\<close> tells whether the SkillNER
  extractor is still in use (\<open>False\<close> is \<open>self.skill_extractor is None\<close>).
\<close>

record calculator =
  jd_text_raw :: string
  jd_text :: string
  skill_extractor :: bool
  jd_skills :: "string set"
  jd_required_years :: int
  debug_details :: "string \<rightharpoonup> debug_value"

definition MIN_TEXT_LENGTH :: nat where "MIN_TEXT_LENGTH = 50"
definition SKILL_COVERAGE_WEIGHT :: real where "SKILL_COVERAGE_WEIGHT = 25 / 100"
definition TFIDF_SIM_WEIGHT :: real where "TFIDF_SIM_WEIGHT = 20 / 100"
definition KEYWORD_MATCH_WEIGHT :: real where "KEYWORD_MATCH_WEIGHT = 15 / 100"
definition SECTIONS_WEIGHT :: real where "SECTIONS_WEIGHT = 20 / 100"
definition BULLETS_WEIGHT :: real where "BULLETS_WEIGHT = 10 / 100"
definition READABILITY_VERBS_WEIGHT :: real where "READABILITY_VERBS_WEIGHT = 10 / 100"

definition IMPORTANT_KEYWORDS :: "string list" where
  "IMPORTANT_KEYWORDS = [''experience'', ''education'', ''skills'', ''projects'', ''certifications'',
     ''leadership'', ''achievements'', ''technical'', ''professional'', ''summary'']"

subsection \<open>Validation\<close>

definition text_ratio :: "string \<Rightarrow> real" where
  "text_ratio text =
     real (length (filter (\<lambda>c. py_isalnum c \<or> py_isspace c) text)) / real (max 1 (length text))"

definition validate_text :: "string \<Rightarrow> string \<Rightarrow> bool \<times> string" where
  "validate_text text name =
     (if py_strip text = [] then (False, name @ '' is empty or not a string'')
      else if length (py_strip text) < MIN_TEXT_LENGTH then (False, name @ '' is too short (min 50 chars)'')
      else if text_ratio text < 5 / 10 then (False, name @ '' contains too many non-text characters'')
      else (True, []))"

subsection \<open>Disqualifiers\<close>

definition email_regex :: rx where
  "email_regex = seqs [Bnd,
     Many (\<lambda>c. ascii_alpha c \<or> re_digit c \<or> one_of ''._%+-'' c) 1 None,
     Cls (chr_is CHR ''@''),
     Many (\<lambda>c. re_word c \<or> one_of ''.-'' c) 1 None,
     Cls (chr_is CHR ''.''),
     Many ascii_alpha 2 None,
     Bnd]"

definition phone_sep :: "char \<Rightarrow> bool" where
  "phone_sep c = (one_of ''-.'' c \<or> py_isspace c)"

definition phone_regex :: rx where
  "phone_regex = seqs [
     opt (seqs [Cls (chr_is CHR ''+''), Many re_digit 1 (Some 3), opt (Cls phone_sep)]),
     opt (Cls (chr_is CHR ''('')),
     Many re_digit 1 (Some 5),
     opt (Cls (chr_is CHR '')'')),
     opt (Cls phone_sep),
     Many re_digit 3 (Some 3),
     opt (Cls phone_sep),
     Many re_digit 3 (Some 5)]"

definition profile_char :: "char \<Rightarrow> bool" where
  "profile_char c = (re_word c \<or> c = CHR ''-'')"

definition linkedin_regex :: rx where
  "linkedin_regex = Seq (lit ''linkedin.com/in/'') (Many profile_char 1 None)"

definition github_regex :: rx where
  "github_regex = Seq (lit ''github.com/'') (Many profile_char 1 None)"

record contact_flags =
  has_name :: bool
  has_email :: bool
  has_phone_or_profile :: bool

text \<open>\<open>1 <= len(parts) <= 5 and any(p[0].isupper() for p in parts if p)\<close>\<close>

definition starts_upper :: "string \<Rightarrow> bool" where
  "starts_upper p = (case p of [] \<Rightarrow> False | c # _ \<Rightarrow> py_isupper c)"

definition gate_name :: "string \<Rightarrow> bool" where
  "gate_name txt =
     (let parts = py_split txt
      in 1 \<le> length parts \<and> length parts \<le> 5 \<and> list_ex starts_upper parts)"

text \<open>One turn of the loop over the elements.\<close>

definition scan_element :: "element \<Rightarrow> contact_flags \<Rightarrow> contact_flags" where
  "scan_element it f =
     (let txt = py_strip (get_content it);
          f1 = (if kind it = Heading \<and> txt \<noteq> [] \<and> gate_name txt
                then f\<lparr>has_name := True\<rparr> else f);
          low = py_lower txt;
          f2 = (if re_search email_regex txt then f1\<lparr>has_email := True\<rparr> else f1)
      in if re_search phone_regex txt \<or> re_search linkedin_regex low \<or> re_search github_regex low
         then f2\<lparr>has_phone_or_profile := True\<rparr> else f2)"

definition no_flags :: contact_flags where
  "no_flags = \<lparr>has_name = False, has_email = False, has_phone_or_profile = False\<rparr>"

definition check_disqualifiers :: "element list \<Rightarrow> bool \<times> string" where
  "check_disqualifiers resume_structure =
     (if list_ex (\<lambda>it. kind it = Table \<or> kind it = Image) resume_structure
      then (False, ''Resume contains tables or images (not ATS-friendly)'')
      else
        (let f = fold scan_element resume_structure no_flags
         in if \<not> (has_name f \<and> (has_email f \<or> has_phone_or_profile f))
            then (False, ''Missing minimal contact information (name + email + phone or profile)'')
            else (True, [])))"

subsection \<open>Skills\<close>

definition ats_common_skills :: "string list" where
  "ats_common_skills = [''python'', ''java'', ''javascript'', ''sql'', ''html'', ''css'', ''react'', ''angular'',
     ''machine learning'', ''data analysis'', ''docker'', ''kubernetes'', ''aws'', ''azure'']"

text \<open>The skills SkillNER reports: full matches, and n-grams scored above 0.7.\<close>

definition ats_annotated :: "annotations \<Rightarrow> string set" where
  "ats_annotated a =
     set (map (\<lambda>v. py_strip (py_lower v)) (full_matches a))
     \<union> set (map (\<lambda>m. py_strip (py_lower (fst m)))
              (filter (\<lambda>m. (case snd m of None \<Rightarrow> 0 | Some sc \<Rightarrow> sc) > 7 / 10) (ngram_scored a)))"

text \<open>
  \<open>_extract_skills\<close> returns the skills and the new value of \<open>self.skill_extractor\<close>:
  an exception of SkillNER disables it, and the keyword scan runs in the same call.
\<close>

definition ats_extract_skills :: "collaborators \<Rightarrow> bool \<Rightarrow> string \<Rightarrow> string set \<times> bool" where
  "ats_extract_skills env extractor text =
     (if py_strip text = [] then ({}, extractor)
      else
        (let (skills, extractor') =
               (if extractor
                then (case annotate env text of
                        Some a \<Rightarrow> (ats_annotated a, True)
                      | None \<Rightarrow> ({}, False))
                else ({}, False))
         in if \<not> extractor'
            then (skills \<union> set (filter (\<lambda>skill. is_substr skill (py_lower text)) ats_common_skills), extractor')
            else (skills, extractor')))"

subsection \<open>Experience\<close>

definition digits_value :: "string \<Rightarrow> int" where
  "digits_value ds = foldl (\<lambda>n c. 10 * n + (int (cp c) - 48)) 0 ds"

text \<open>\<open>(\d+)\s*\+?\s*(?:years|yrs)\s+(?:of\s+)?experience\<close>\<close>

definition extract_experience_requirements :: "string \<Rightarrow> int" where
  "extract_experience_requirements text0 =
     (let text = normalize text0;
          matches = re_findall Eps (Many re_digit 1 None)
             (seqs [Many py_isspace 0 None, opt (Cls (chr_is CHR ''+'')), Many py_isspace 0 None,
                    Alt (lit ''years'') (lit ''yrs''), Many py_isspace 1 None,
                    opt (Seq (lit ''of'') (Many py_isspace 1 None)), lit ''experience'']) text;
          nums = map digits_value matches
      in if nums = [] then 0 else Max (set nums))"

text \<open>\<open>(20\d{2}|19\d{2})\<close>\<close>

definition estimate_years_from_resume :: "string \<Rightarrow> int" where
  "estimate_years_from_resume text =
     (let years = re_findall Eps
            (Alt (Seq (lit ''20'') (Many re_digit 2 (Some 2))) (Seq (lit ''19'') (Many re_digit 2 (Some 2))))
            Eps text;
          yrs = set (map digits_value years)
      in if card yrs \<ge> 2 then max 0 (min 40 (Max yrs - Min yrs)) else 0)"

definition experience_bonus :: "calculator \<Rightarrow> string \<Rightarrow> real" where
  "experience_bonus self resume_text =
     (if jd_required_years self \<le> 0 then 0
      else if estimate_years_from_resume resume_text \<ge> jd_required_years self then 2 / 100
      else 0)"

subsection \<open>Content score\<close>

definition clamp :: "real \<Rightarrow> real \<Rightarrow> real \<Rightarrow> real" where
  "clamp lo hi x = max lo (min hi x)"

definition skill_coverage :: "string set \<Rightarrow> string set \<Rightarrow> real" where
  "skill_coverage jd resume_skills =
     (if jd \<noteq> {} then real (card (jd \<inter> resume_skills)) / real (card jd) else 0)"

definition tfidf_component :: "collaborators \<Rightarrow> string \<Rightarrow> string \<Rightarrow> real" where
  "tfidf_component env jd resume_norm =
     (case tfidf_cosine env jd resume_norm of
        Some sim \<Rightarrow> TFIDF_SIM_WEIGHT * sim
      | None \<Rightarrow> 0)"

definition keyword_component :: "collaborators \<Rightarrow> string \<Rightarrow> real" where
  "keyword_component env resume_norm =
     (case nlp env (py_lower resume_norm) of
        Some d \<Rightarrow>
          KEYWORD_MATCH_WEIGHT *
            (real (length (filter (\<lambda>kw. is_substr kw (doc_text d)) IMPORTANT_KEYWORDS))
             / real (length IMPORTANT_KEYWORDS))
      | None \<Rightarrow> 0)"

text \<open>\<open>_content_score\<close> returns the score and the new value of \<open>self.skill_extractor\<close>.\<close>

definition content_score :: "collaborators \<Rightarrow> calculator \<Rightarrow> string \<Rightarrow> real \<times> bool" where
  "content_score env self resume_text =
     (let resume_norm = normalize resume_text;
          (resume_skills, extractor') = ats_extract_skills env (skill_extractor self) resume_norm;
          skill_component = SKILL_COVERAGE_WEIGHT * skill_coverage (jd_skills self) resume_skills;
          total_content = skill_component + tfidf_component env (jd_text self) resume_norm
                          + keyword_component env resume_norm + experience_bonus self resume_norm
      in (clamp 0 (60 / 100) total_content, extractor'))"

subsection \<open>Formatting score\<close>

definition required_sections :: "string list" where
  "required_sections = [''skills'', ''experience'', ''education'']"

definition container_sections :: "string list" where
  "container_sections = [''experience'', ''projects'', ''project'', ''education'']"

definition sections_component :: "element list \<Rightarrow> real" where
  "sections_component resume_structure =
     (let headings = map (\<lambda>it. py_lower (get_content it)) (filter (\<lambda>it. kind it = Heading) resume_structure);
          present = set (filter (\<lambda>h. h \<in> set required_sections) headings)
      in SECTIONS_WEIGHT * (real (card present) / real (length required_sections)))"

text \<open>
  The bullet counter: the current section and the \<open>Counter\<close>, an association list in
  insertion order.
\<close>

definition count_bullet :: "element \<Rightarrow> string option \<times> (string \<times> nat) list \<Rightarrow> string option \<times> (string \<times> nat) list" where
  "count_bullet it st =
     (let (current, bullets_by_section) = st
      in if kind it = Heading then
           (let h = py_lower (get_content it)
            in if h \<in> set container_sections
               then (Some h, if map_of bullets_by_section h = None then bullets_by_section @ [(h, 0)]
                             else bullets_by_section)
               else (None, bullets_by_section))
         else if kind it = Bullet then
           (case current of
              Some cur \<Rightarrow> (current, map (\<lambda>(k, n). if k = cur then (k, Suc n) else (k, n)) bullets_by_section)
            | None \<Rightarrow> st)
         else st)"

definition bullet_reward :: "nat \<Rightarrow> real" where
  "bullet_reward cnt = (if cnt \<ge> 2 then BULLETS_WEIGHT / 4 else 0) - (if cnt > 4 then BULLETS_WEIGHT / 10 else 0)"

definition bullet_component :: "element list \<Rightarrow> real" where
  "bullet_component resume_structure =
     (let bullets_by_section = snd (fold count_bullet resume_structure (None, []))
      in clamp 0 BULLETS_WEIGHT (sum_list (map (\<lambda>(k, cnt). bullet_reward cnt) bullets_by_section)))"

definition avg_len :: "doc \<Rightarrow> real" where
  "avg_len d = (if sents d \<noteq> [] then real (sum_list (sents d)) / real (length (sents d)) else 0)"

text \<open>The number of bullets whose first token is a verb; \<open>None\<close> when spaCy raises on one.\<close>

fun verb_starts :: "collaborators \<Rightarrow> element list \<Rightarrow> nat option" where
  "verb_starts env [] = Some 0"
| "verb_starts env (it # its) =
     (if kind it = Bullet then
        (case nlp env (get_content it) of
           None \<Rightarrow> None
         | Some bdoc \<Rightarrow>
             (case verb_starts env its of
                None \<Rightarrow> None
              | Some n \<Rightarrow> Some (if first_pos bdoc = Some ''VERB'' then Suc n else n)))
      else verb_starts env its)"

definition read_component :: "doc \<Rightarrow> nat \<Rightarrow> real" where
  "read_component d verbs =
     clamp 0 READABILITY_VERBS_WEIGHT
       ((if 10 \<le> avg_len d \<and> avg_len d \<le> 30 then READABILITY_VERBS_WEIGHT * (5 / 10) else 0)
        + (if verbs \<ge> 3 then READABILITY_VERBS_WEIGHT * (5 / 10) else 0))"

definition formatting_score :: "collaborators \<Rightarrow> string \<Rightarrow> element list \<Rightarrow> real option" where
  "formatting_score env resume_text resume_structure =
     (case nlp env resume_text of
        None \<Rightarrow> None
      | Some d \<Rightarrow>
          (case verb_starts env resume_structure of
             None \<Rightarrow> None
           | Some verbs \<Rightarrow>
               Some (clamp 0 (40 / 100)
                 (sections_component resume_structure + bullet_component resume_structure
                  + read_component d verbs))))"

subsection \<open>The public API\<close>

text \<open>Python's \<open>round\<close> on a float: to the nearest integer, a tie to the even one.\<close>

definition py_round :: "real \<Rightarrow> int" where
  "py_round x =
     (let f = \<lfloor>x\<rfloor>; d = x - of_int f
      in if d < 1 / 2 then f else if d > 1 / 2 then f + 1 else if even f then f else f + 1)"

definition log_debug :: "string \<Rightarrow> debug_value \<Rightarrow> calculator \<Rightarrow> calculator" where
  "log_debug k v self = self\<lparr>debug_details := (debug_details self)(k \<mapsto> v)\<rparr>"

text \<open>
  \<open>total_score\<close> returns the score and the calculator after the call. The message of
  the exception caught by the last handler is not part of the logged text.
\<close>

definition total_score :: "collaborators \<Rightarrow> calculator \<Rightarrow> string \<Rightarrow> element list \<Rightarrow> int \<times> calculator" where
  "total_score env self resume_text resume_structure =
     (let (ok, msg) = validate_text resume_text ''Resume''
      in if \<not> ok then (0, log_debug ''error'' (DStr msg) self)
         else if resume_structure = [] then (0, log_debug ''error'' (DStr ''Invalid or empty resume structure'') self)
         else
           (let (disq_ok, disq_reason) = check_disqualifiers resume_structure
            in if \<not> disq_ok then (0, log_debug ''disqualified'' (DStr disq_reason) self)
               else
                 (let (content, extractor') = content_score env self resume_text;
                      self1 = self\<lparr>skill_extractor := extractor'\<rparr>
                  in case formatting_score env resume_text resume_structure of
                       None \<Rightarrow> (0, log_debug ''error'' (DStr ''ATS computation error'') self1)
                     | Some formatting \<Rightarrow>
                         (let final_pct = py_round ((content + formatting) * 100)
                          in (final_pct, log_debug ''final_score'' (DInt final_pct) self1)))))"

text \<open>The constructor: it rejects a job description that fails validation.\<close>

definition ats_init :: "collaborators \<Rightarrow> bool \<Rightarrow> string \<Rightarrow> error + calculator" where
  "ats_init env extractor_ok jd =
     (if \<not> fst (validate_text jd ''Job description'') then Inl ValueError
      else
        (let (skills, extractor') = ats_extract_skills env extractor_ok (normalize jd)
         in Inr \<lparr>jd_text_raw = jd, jd_text = normalize jd, skill_extractor = extractor',
                 jd_skills = skills,
                 jd_required_years = extract_experience_requirements (normalize jd),
                 debug_details = Map.empty\<rparr>))"


section \<open>suggest\_skills.py\<close>

text \<open>The curated vocabulary, in the order of the source.\<close>

definition COMMON_SKILLS :: "string list" where
  "COMMON_SKILLS = [
    ''python'', ''java'', ''javascript'', ''typescript'', ''c++'', ''c#'', ''c'', ''ruby'',
     ''php'', ''swift'', ''kotlin'', ''go'', ''rust'', ''scala'', ''r'', ''matlab'', ''perl'',
     ''shell'', ''bash'', ''powershell'', ''html'', ''css'', ''react'', ''angular'', ''vue'',
     ''node.js'', ''express'', ''django'', ''flask'', ''spring'', ''laravel'',
     ''ruby on rails'', ''asp.net'', ''.net'', ''jquery'', ''bootstrap'', ''sass'', ''less'',
     ''sql'', ''mysql'', ''postgresql'', ''mongodb'', ''redis'', ''elasticsearch'',
     ''oracle'', ''sqlite'', ''nosql'', ''cassandra'', ''dynamodb'', ''firebase'', ''aws'',
     ''azure'', ''gcp'', ''docker'', ''kubernetes'', ''jenkins'', ''git'', ''github'',
     ''gitlab'', ''terraform'', ''ansible'', ''chef'', ''puppet'', ''vagrant'', ''linux'',
     ''unix'', ''windows'', ''machine learning'', ''deep learning'', ''tensorflow'',
     ''pytorch'', ''keras'', ''scikit-learn'', ''pandas'', ''numpy'', ''matplotlib'',
     ''seaborn'', ''jupyter'', ''tableau'', ''power bi'', ''data analysis'', ''data science'',
     ''statistics'', ''excel'', ''ios'', ''android'', ''react native'', ''flutter'',
     ''xamarin'', ''cordova'', ''ionic'', ''api'', ''rest'', ''graphql'', ''microservices'',
     ''agile'', ''scrum'', ''kanban'', ''jira'', ''confluence'', ''slack'', ''teams'', ''zoom'']"
text \<open>\<open>re.sub(r'[^\w\s]', ' ', text.lower()).strip()\<close>\<close>

definition clean_phrase :: "string \<Rightarrow> string" where
  "clean_phrase text =
     py_strip (map (\<lambda>c. if re_word c \<or> py_isspace c then c else CHR '' '') (py_lower text))"

text \<open>\<open>re.split(r'[,/&+]', s)\<close>: the pieces between the separator characters.\<close>

fun split_on :: "(char \<Rightarrow> bool) \<Rightarrow> string \<Rightarrow> string \<Rightarrow> string list" where
  "split_on sep w [] = [rev w]"
| "split_on sep w (c # cs) = (if sep c then rev w # split_on sep [] cs else split_on sep (c # w) cs)"

definition re_split :: "(char \<Rightarrow> bool) \<Rightarrow> string \<Rightarrow> string list" where
  "re_split sep s = split_on sep [] s"

text \<open>
  The two templates of the pattern layer, both with \<open>re.IGNORECASE\<close>:
  \<^verbatim>\<open>\b(?:proficient in|experience with|skilled in|expertise in|knowledge of|familiar with)[\s:]+([\w\s/&+.\-/]+)(?:\.|,|;|$)\<close>
  and
  \<^verbatim>\<open>\b(?:technologies?|skills?|tools?)[\s:]+([\w\s/&+.\-/]+)(?:\.|,|;|$)\<close>.
\<close>

definition phrase_gap :: rx where
  "phrase_gap = Many (\<lambda>c. py_isspace c \<or> c = CHR '':'') 1 None"

definition phrase_group :: rx where
  "phrase_group = Many (\<lambda>c. re_word c \<or> py_isspace c \<or> one_of ''/&+.-'' c) 1 None"

definition phrase_stop :: rx where
  "phrase_stop = alts [Cls (chr_is CHR ''.''), Cls (chr_is CHR '',''), Cls (chr_is CHR '';''), Eos]"

definition skill_intro_1 :: rx where
  "skill_intro_1 = seqs [Bnd,
     alts (map lit_ci [''proficient in'', ''experience with'', ''skilled in'', ''expertise in'',
                       ''knowledge of'', ''familiar with'']),
     phrase_gap]"

definition skill_intro_2 :: rx where
  "skill_intro_2 = seqs [Bnd,
     alts [Seq (lit_ci ''technologie'') (opt (Cls (chr_ci CHR ''s''))),
           Seq (lit_ci ''skill'') (opt (Cls (chr_ci CHR ''s''))),
           Seq (lit_ci ''tool'') (opt (Cls (chr_ci CHR ''s'')))],
     phrase_gap]"

definition skill_patterns :: "rx list" where
  "skill_patterns = [skill_intro_1, skill_intro_2]"

text \<open>The tokens the pattern layer adds: every piece of every captured phrase, cleaned.\<close>

definition pattern_tokens :: "string \<Rightarrow> string list" where
  "pattern_tokens text =
     concat (map (\<lambda>pattern.
         concat (map (\<lambda>grp. map clean_phrase (filter (\<lambda>s. py_strip s \<noteq> []) (re_split (one_of '',/&+'') grp)))
                     (re_findall pattern phrase_group phrase_stop text)))
       skill_patterns)"

text \<open>The skills SkillNER reports, cleaned and at most 100 characters long.\<close>

definition keep_skill :: "string \<Rightarrow> bool" where
  "keep_skill skill = (skill \<noteq> [] \<and> length skill \<le> 100)"

definition annotated_skills :: "annotations \<Rightarrow> string set" where
  "annotated_skills a =
     set (filter keep_skill (map clean_phrase (full_matches a)))
     \<union> set (filter keep_skill (map (\<lambda>m. clean_phrase (fst m))
              (filter (\<lambda>m. (case snd m of None \<Rightarrow> 0 | Some sc \<Rightarrow> sc) > 7 / 10) (ngram_scored a))))"

text \<open>The fallback: entities of spaCy that are in the vocabulary, and the vocabulary scan.\<close>

definition entity_skills :: "collaborators \<Rightarrow> string \<Rightarrow> string set" where
  "entity_skills env text =
     (case nlp env text of
        None \<Rightarrow> {}
      | Some d \<Rightarrow>
          set (map (\<lambda>e. py_lower (clean_phrase (fst e)))
                (filter (\<lambda>e. snd e \<in> set [''PERSON'', ''ORG'', ''PRODUCT'']
                            \<and> keep_skill (clean_phrase (fst e))
                            \<and> py_lower (clean_phrase (fst e)) \<in> set COMMON_SKILLS)
                        (ents d))))"

definition vocabulary_skills :: "string \<Rightarrow> string set" where
  "vocabulary_skills text = set (filter (\<lambda>skill. is_substr skill (py_lower text)) COMMON_SKILLS)"

text \<open>
  \<open>extract_skills\<close> returns the skills and the new value of the module's
  \<open>skill_extractor\<close> (\<open>False\<close> is \<open>None\<close>).
\<close>

definition extract_skills :: "collaborators \<Rightarrow> bool \<Rightarrow> string \<Rightarrow> string set \<times> bool" where
  "extract_skills env extractor text =
     (if text = [] then ({}, extractor)
      else if py_strip text = [] then ({}, extractor)
      else
        (let (skills, extractor') =
               (if extractor
                then (case annotate env text of
                        Some a \<Rightarrow> (annotated_skills a, True)
                      | None \<Rightarrow> ({}, False))
                else ({}, False));
             skills' = (if \<not> extractor'
                        then skills \<union> entity_skills env text \<union> vocabulary_skills text
                        else skills)
         in (skills' \<union> set (pattern_tokens text), extractor')))"





section \<open>restructure\_advice.py\<close>

record Issue =
  issue :: string
  advice :: string

record ContactInfo =
  ci_name :: bool
  ci_email :: bool
  ci_phone :: bool
  ci_profile :: bool

definition MIN_FONT_SIZE :: real where "MIN_FONT_SIZE = 9"
definition MAX_BULLETS_PER_SECTION :: nat where "MAX_BULLETS_PER_SECTION = 5"

text \<open>
  \<^verbatim>\<open>\b[A-Za-z0-9._%+-]+@[A-Za-z0-9.-]+\.[A-Z|a-z]{2,}\b\<close> with \<open>re.IGNORECASE\<close>, and
  \<^verbatim>\<open>(\+\d{1,3}[-.\s]?)?\(?\d{3}\)?[-.\s]?\d{3}[-.\s]?\d{4}\<close>.
\<close>

definition EMAIL_REGEX :: rx where
  "EMAIL_REGEX = seqs [Bnd,
     Many (\<lambda>c. ascii_alpha c \<or> re_digit c \<or> one_of ''._%+-'' c) 1 None,
     Cls (chr_is CHR ''@''),
     Many (\<lambda>c. ascii_alpha c \<or> re_digit c \<or> one_of ''.-'' c) 1 None,
     Cls (chr_is CHR ''.''),
     Many (\<lambda>c. ascii_alpha c \<or> c = CHR ''|'') 2 None,
     Bnd]"

definition PHONE_REGEX :: rx where
  "PHONE_REGEX = seqs [
     opt (seqs [Cls (chr_is CHR ''+''), Many re_digit 1 (Some 3), opt (Cls phone_sep)]),
     opt (Cls (chr_is CHR ''('')),
     Many re_digit 3 (Some 3),
     opt (Cls (chr_is CHR '')'')),
     opt (Cls phone_sep),
     Many re_digit 3 (Some 3),
     opt (Cls phone_sep),
     Many re_digit 4 (Some 4)]"

definition LINKEDIN_REGEX :: rx where
  "LINKEDIN_REGEX = Seq (lit ''linkedin.com/in/'') (Many profile_char 1 None)"

definition GITHUB_REGEX :: rx where
  "GITHUB_REGEX = Seq (lit ''github.com/'') (Many profile_char 1 None)"

text \<open>The decimal text of a count, for the messages.\<close>

function str_nat :: "nat \<Rightarrow> string" where
  "str_nat n = (if n < 10 then [char_of (48 + n)] else str_nat (n div 10) @ [char_of (48 + n mod 10)])"
  by pat_completeness auto
termination
  by (relation "measure id") auto

definition quoted :: "string \<Rightarrow> string" where
  "quoted s = [CHR 0x22] @ s @ [CHR 0x22]"

text \<open>\<open>str.title()\<close>, on the ASCII letters of the section names.\<close>

fun title_from :: "bool \<Rightarrow> string \<Rightarrow> string" where
  "title_from in_word [] = []"
| "title_from in_word (c # cs) =
     (if ascii_alpha c
      then (if in_word then lower_char c else (if ascii_lower c then char_of (cp c - 32) else c))
           # title_from True cs
      else c # title_from False cs)"

definition py_title :: "string \<Rightarrow> string" where
  "py_title s = title_from False s"

subsection \<open>Contact information\<close>

text \<open>\<open>2 <= len(name_parts) <= 4 and all(part and part[0].isupper() for part in name_parts)\<close>\<close>

definition name_test :: "string list \<Rightarrow> bool" where
  "name_test name_parts =
     (2 \<le> length name_parts \<and> length name_parts \<le> 4
      \<and> list_all starts_upper (filter (\<lambda>part. part \<noteq> []) name_parts))"

definition missing_name_issue :: Issue where
  "missing_name_issue = \<lparr>issue = ''Missing or unclear name at the top of the resume'',
     advice = ''Add your full name prominently at the top of your resume.''\<rparr>"

definition missing_contact_issue :: Issue where
  "missing_contact_issue = \<lparr>issue = ''Missing both email and phone number'',
     advice = ''Include at least one reliable contact method (email or phone).''\<rparr>"

definition missing_profile_issue :: Issue where
  "missing_profile_issue = \<lparr>issue = ''No professional profile links'',
     advice = ''Consider adding your LinkedIn profile or personal website.''\<rparr>"

definition check_contact_info :: "string \<Rightarrow> error + (bool \<times> ContactInfo \<times> Issue list)" where
  "check_contact_info resume_text =
     (if py_strip resume_text = [] then Inl ValueError
      else
        (let first_100_chars = py_strip (take 100 resume_text);
             name_parts = py_split (py_strip (takeWhile (\<lambda>c. c \<noteq> CHR 0x0A) first_100_chars));
             info = \<lparr>ci_name = (2 \<le> length name_parts \<and> length name_parts \<le> 4
                                   \<and> list_all starts_upper name_parts),
                     ci_email = re_search EMAIL_REGEX resume_text,
                     ci_phone = re_search PHONE_REGEX resume_text,
                     ci_profile = (re_search LINKEDIN_REGEX resume_text \<or> re_search GITHUB_REGEX resume_text)\<rparr>;
             issues = (if \<not> ci_name info then [missing_name_issue] else [])
                    @ (if \<not> ci_email info \<and> \<not> ci_phone info then [missing_contact_issue] else [])
                    @ (if \<not> ci_profile info then [missing_profile_issue] else [])
         in Inr (ci_name info \<and> (ci_email info \<or> ci_phone info), info, issues)))"

subsection \<open>Sections\<close>

definition section_groups :: "string list list" where
  "section_groups = [[''experience'', ''work experience'', ''employment history''],
                     [''education'', ''academic background''],
                     [''skills'', ''technical skills'', ''key skills'']]"

definition missing_section_issue :: "string \<Rightarrow> Issue" where
  "missing_section_issue section_name =
     \<lparr>issue = ''Missing '' @ quoted (py_title section_name) @ '' section'',
      advice = ''Add a clearly labeled '' @ quoted (py_title section_name) @ '' section.''\<rparr>"

definition name_not_at_top_issue :: Issue where
  "name_not_at_top_issue = \<lparr>issue = ''Name/contact information not at the top'',
     advice = ''Place your name and contact information at the top of the first page.''\<rparr>"

text \<open>The headings: \<open>item['content'].lower().strip()\<close> of every heading with content.\<close>

definition section_headings :: "element list \<Rightarrow> string list" where
  "section_headings resume_structure =
     map (\<lambda>item. py_strip (py_lower (get_content item)))
         (filter (\<lambda>item. kind item = Heading \<and> get_content item \<noteq> []) resume_structure)"

definition check_sections :: "string \<Rightarrow> element list \<Rightarrow> error + Issue list" where
  "check_sections resume_text resume_structure =
     (if py_strip resume_text = [] then Inl ValueError
      else
        (let missing = concat (map (\<lambda>section_group.
                           if list_ex (\<lambda>variant. re_search (lit_ci variant) resume_text) section_group
                           then [] else [missing_section_issue (hd section_group)])
                         section_groups);
             headings = section_headings resume_structure
         in Inr (missing @
                 (case headings of
                    [] \<Rightarrow> []
                  | first_heading # _ \<Rightarrow>
                      if \<not> name_test (py_split first_heading) then [name_not_at_top_issue] else []))))"

subsection \<open>Formatting\<close>

definition font_small_issue :: "collaborators \<Rightarrow> real \<Rightarrow> Issue" where
  "font_small_issue env min_size =
     \<lparr>issue = ''Font size too small ('' @ format_1f env min_size @ ''pt)'',
      advice = ''Increase all text to at least 10pt for better readability.''\<rparr>"

definition font_varied_issue :: Issue where
  "font_varied_issue = \<lparr>issue = ''Inconsistent font sizes'',
     advice = ''Limit font size variations to 2-3 sizes for better visual hierarchy.''\<rparr>"

definition tables_issue :: Issue where
  "tables_issue = \<lparr>issue = ''Uses tables or columns'',
     advice = ''Avoid tables and columns as they may cause parsing issues with ATS.''\<rparr>"

definition images_issue :: Issue where
  "images_issue = \<lparr>issue = ''Contains images or graphics'',
     advice = ''Remove images, icons, and graphics as they are not ATS-friendly.''\<rparr>"

definition check_formatting :: "collaborators \<Rightarrow> element list \<Rightarrow> Issue list" where
  "check_formatting env resume_structure =
     (let font_sizes = concat (map (\<lambda>item. case font_size item of None \<Rightarrow> [] | Some fs \<Rightarrow> [fs]) resume_structure)
      in (if font_sizes \<noteq> [] then
            (if Min (set font_sizes) < MIN_FONT_SIZE then [font_small_issue env (Min (set font_sizes))] else [])
            @ (if Max (set font_sizes) - Min (set font_sizes) > 6 then [font_varied_issue] else [])
          else [])
         @ (if length (filter (\<lambda>item. kind item = Table) resume_structure) > 0 then [tables_issue] else [])
         @ (if length (filter (\<lambda>item. kind item = Image) resume_structure) > 0 then [images_issue] else []))"

subsection \<open>Content quality\<close>

definition tracked_words :: "string list" where
  "tracked_words = [''experience'', ''work experience'', ''projects'', ''education'']"

text \<open>
  The bullets of each tracked section: a dictionary in insertion order. A heading that
  comes again sets its count back to 0 and keeps its place.
\<close>

definition track_bullet :: "element \<Rightarrow> string option \<times> (string \<times> nat) list \<Rightarrow> string option \<times> (string \<times> nat) list" where
  "track_bullet item st =
     (let (current_section, section_bullets) = st
      in if kind item = Heading then
           (let heading = py_strip (py_lower (get_content item))
            in if list_ex (\<lambda>exp. is_substr exp heading) tracked_words
               then (Some heading,
                     if map_of section_bullets heading = None then section_bullets @ [(heading, 0)]
                     else map (\<lambda>(k, n). if k = heading then (k, 0) else (k, n)) section_bullets)
               else (None, section_bullets))
         else if kind item = Bullet then
           (case current_section of
              Some cur \<Rightarrow> if cur \<noteq> []
                          then (current_section, map (\<lambda>(k, n). if k = cur then (k, Suc n) else (k, n)) section_bullets)
                          else st
            | None \<Rightarrow> st)
         else st)"

definition no_bullets_issue :: "string \<Rightarrow> Issue" where
  "no_bullets_issue section_name =
     \<lparr>issue = ''No bullet points in '' @ quoted section_name @ '' section'',
      advice = ''Use 3-5 bullet points per position to highlight achievements.''\<rparr>"

definition too_many_bullets_issue :: "nat \<Rightarrow> string \<Rightarrow> Issue" where
  "too_many_bullets_issue bullet_count section_name =
     \<lparr>issue = ''Too many bullet points ('' @ str_nat bullet_count @ '') in '' @ quoted section_name,
      advice = ''Limit to 5 bullet points per position for better readability.''\<rparr>"

definition weak_verbs_issue :: Issue where
  "weak_verbs_issue = \<lparr>issue = ''Weak action verbs'',
     advice = ''Start bullet points with strong action verbs (e.g., '' @ quoted ''Led'' @ '', ''
              @ quoted ''Developed'' @ '', '' @ quoted ''Increased'' @ '').''\<rparr>"

definition action_verbs :: "string list" where
  "action_verbs = [''achieved'', ''managed'', ''increased'', ''developed'', ''led'', ''implemented'',
     ''created'', ''improved'', ''reduced'', ''designed'', ''launched'', ''spearheaded'',
     ''built'', ''optimized'', ''analyzed'', ''collaborated'', ''mentored'', ''taught'',
     ''coordinated'', ''executed'', ''facilitated'', ''generated'', ''resolved'']"

definition action_verb_pattern :: rx where
  "action_verb_pattern = seqs [Bnd, alts (map lit_ci action_verbs), Many re_word 0 None, Bnd]"

definition bullet_issues :: "string \<times> nat \<Rightarrow> Issue list" where
  "bullet_issues entry =
     (let (section_name, bullet_count) = entry
      in if bullet_count = 0 \<and> list_ex (\<lambda>exp. is_substr exp section_name) [''experience'', ''work experience'']
         then [no_bullets_issue section_name]
         else if bullet_count > MAX_BULLETS_PER_SECTION then [too_many_bullets_issue bullet_count section_name]
         else [])"

definition check_content_quality :: "string \<Rightarrow> element list \<Rightarrow> error + Issue list" where
  "check_content_quality resume_text resume_structure =
     (if py_strip resume_text = [] then Inl ValueError
      else
        (let section_bullets = snd (fold track_bullet resume_structure (None, []))
         in Inr (concat (map bullet_issues section_bullets)
                 @ (if \<not> re_search action_verb_pattern resume_text then [weak_verbs_issue] else []))))"

subsection \<open>The advisor\<close>

definition invalid_text_issue :: Issue where
  "invalid_text_issue = \<lparr>issue = ''Invalid resume text'',
     advice = ''Provide valid resume text for analysis.''\<rparr>"

definition no_major_issues :: Issue where
  "no_major_issues = \<lparr>issue = ''No major issues detected'',
     advice = ''Your resume appears to be well-structured for ATS. Consider having it reviewed by a professional for further optimization.''\<rparr>"

definition analyze_resume_structure :: "collaborators \<Rightarrow> string \<Rightarrow> element list \<Rightarrow> error + Issue list" where
  "analyze_resume_structure env resume_text resume_structure =
     (if resume_text = [] then Inr [invalid_text_issue]
      else
        (case check_contact_info resume_text of
           Inl e \<Rightarrow> Inl e
         | Inr (_, _, contact_issues) \<Rightarrow>
             (case check_sections resume_text resume_structure of
                Inl e \<Rightarrow> Inl e
              | Inr section_issues \<Rightarrow>
                  (let formatting_issues = check_formatting env resume_structure
                   in case check_content_quality resume_text resume_structure of
                        Inl e \<Rightarrow> Inl e
                      | Inr content_issues \<Rightarrow>
                          (let all_issues = contact_issues @ section_issues @ formatting_issues @ content_issues
                           in if all_issues = [] then Inr [no_major_issues] else Inr all_issues)))))"


section \<open>Example inputs\<close>

text \<open>
  Collaborators for the examples: SkillNER raises, the vectoriser raises, and spaCy splits
  a text into sentences at the full stops and into tokens at whitespace.
\<close>

definition sentence_tokens :: "string \<Rightarrow> nat list" where
  "sentence_tokens t =
     map (\<lambda>s. length (py_split s)) (filter (\<lambda>s. py_strip s \<noteq> []) (re_split (chr_is CHR ''.'') t))"

definition example_services :: collaborators where
  "example_services =
     \<lparr>annotate = (\<lambda>_. None),
      nlp = (\<lambda>t. Some \<lparr>doc_text = t, sents = sentence_tokens t, first_pos = None, ents = []\<rparr>),
      tfidf_cosine = (\<lambda>_ _. None),
      format_1f = (\<lambda>_. [])\<rparr>"

definition example_calculator :: calculator where
  "example_calculator =
     \<lparr>jd_text_raw = ''Python SQL'', jd_text = ''python sql'', skill_extractor = False,
      jd_skills = {''python'', ''sql''}, jd_required_years = 0, debug_details = Map.empty\<rparr>"

definition el :: "kind \<Rightarrow> string \<Rightarrow> element" where
  "el k txt = \<lparr>kind = k, content = Some txt, font_size = None, page = 1\<rparr>"

definition table_structure :: "element list" where
  "table_structure = [el Heading ''Jane Doe'', el Table ''a | b'']"

definition example_structure :: "element list" where
  "example_structure = [el Heading ''John doe'', el Text ''j@b.io'']"

definition example_text :: string where
  "example_text = ''Python and SQL developer with ten years of experience and strong skills''"




section \<open>The specification's wording\<close>

text \<open>
  The name condition as the specification words it: a heading whose text has 1 to 5
  whitespace-separated tokens, each starting with an uppercase letter.
\<close>

definition spec_name_heading :: "element \<Rightarrow> bool" where
  "spec_name_heading it =
     (kind it = Heading \<and>
      (let parts = py_split (get_content it)
       in 1 \<le> length parts \<and> length parts \<le> 5 \<and> list_all starts_upper parts))"





section \<open>Properties of the score aggregator\<close>






lemma table_structure_fails: "\<not> fst (check_disqualifiers table_structure)"
  by (simp add: check_disqualifiers_def table_structure_def el_def)

text \<open>
  C1. When the disqualifier gate fails on the structure, \<open>total_score\<close> returns 0 whatever
  the resume text is. No sub-score is computed: the result is the same with any other
  collaborators, the skill extractor is left as it was and no final score is logged.
\<close>

theorem disqualified_scores_zero:
  assumes "\<not> fst (check_disqualifiers resume_structure)"
  shows "fst (total_score env self resume_text resume_structure) = 0
       \<and> total_score env' self resume_text resume_structure = total_score env self resume_text resume_structure
       \<and> skill_extractor (snd (total_score env self resume_text resume_structure)) = skill_extractor self
       \<and> debug_details (snd (total_score env self resume_text resume_structure)) ''final_score''
           = debug_details self ''final_score''"
  using assms unfolding total_score_def Let_def log_debug_def
  by (simp add: split_beta)

theorem disqualified_scores_zero_witness:
  "\<not> fst (check_disqualifiers table_structure)
   \<and> fst (total_score example_services example_calculator
        example_text table_structure) = 0"
  using disqualified_scores_zero[OF table_structure_fails, of example_services example_calculator
      example_text example_services]
    table_structure_fails
  by simp




lemma example_structure_passes: "fst (check_disqualifiers example_structure)"
  by code_simp


lemma example_content: "fst (content_score example_services example_calculator example_text) = 7 / 25"
  by code_simp



subsection \<open>The disqualifier gate\<close>

lemma scan_has_name:
  "has_name (fold scan_element rs f) =
     (has_name f \<or> (\<exists>it \<in> set rs. kind it = Heading \<and> py_strip (get_content it) \<noteq> []
                        \<and> gate_name (py_strip (get_content it))))"
  by (induction rs arbitrary: f) (auto simp: scan_element_def Let_def)

lemma scan_has_email:
  "has_email (fold scan_element rs f) =
     (has_email f \<or> (\<exists>it \<in> set rs. re_search email_regex (py_strip (get_content it))))"
  by (induction rs arbitrary: f) (auto simp: scan_element_def Let_def)

lemma scan_has_phone_or_profile:
  "has_phone_or_profile (fold scan_element rs f) =
     (has_phone_or_profile f \<or>
      (\<exists>it \<in> set rs. re_search phone_regex (py_strip (get_content it))
          \<or> re_search linkedin_regex (py_lower (py_strip (get_content it)))
          \<or> re_search github_regex (py_lower (py_strip (get_content it)))))"
  by (induction rs arbitrary: f) (auto simp: scan_element_def Let_def)

lemma gate_name_nonempty: "gate_name txt \<Longrightarrow> txt \<noteq> []"
  by (auto simp: gate_name_def py_split_def)

text \<open>
  C3, as the code has it. The gate passes exactly when no element is a table or an image,
  some heading has, after trimming, 1 to 5 whitespace-separated tokens of which at least
  one starts with an uppercase letter, and some element matches the email pattern or the
  phone pattern on its trimmed content, or the LinkedIn or GitHub pattern on its
  lowercased trimmed content.
\<close>

theorem gate_passes_iff:
  "fst (check_disqualifiers resume_structure) \<longleftrightarrow>
     (\<forall>it \<in> set resume_structure. kind it \<noteq> Table \<and> kind it \<noteq> Image)
     \<and> (\<exists>it \<in> set resume_structure. kind it = Heading
           \<and> 1 \<le> length (py_split (py_strip (get_content it)))
           \<and> length (py_split (py_strip (get_content it))) \<le> 5
           \<and> (\<exists>p \<in> set (py_split (py_strip (get_content it))). starts_upper p))
     \<and> (\<exists>it \<in> set resume_structure.
             re_search email_regex (py_strip (get_content it))
           \<or> re_search phone_regex (py_strip (get_content it))
           \<or> re_search linkedin_regex (py_lower (py_strip (get_content it)))
           \<or> re_search github_regex (py_lower (py_strip (get_content it))))"
proof -
  have name: "(kind it = Heading \<and> py_strip (get_content it) \<noteq> [] \<and> gate_name (py_strip (get_content it)))
      = (kind it = Heading \<and> 1 \<le> length (py_split (py_strip (get_content it)))
           \<and> length (py_split (py_strip (get_content it))) \<le> 5
           \<and> (\<exists>p \<in> set (py_split (py_strip (get_content it))). starts_upper p))" for it
    using gate_name_nonempty[of "py_strip (get_content it)"]
    by (auto simp: gate_name_def Let_def list_ex_iff)
  show ?thesis
    unfolding check_disqualifiers_def Let_def
    by (simp add: scan_has_name scan_has_email scan_has_phone_or_profile no_flags_def
          list_ex_iff name) blast
qed

lemma example_structure_no_spec_name: "\<not> list_ex spec_name_heading example_structure"
  by code_simp

theorem gate_passes_iff_witness:
  "fst (check_disqualifiers example_structure)
   \<and> list_all (\<lambda>it. kind it \<noteq> Table \<and> kind it \<noteq> Image) example_structure
   \<and> (\<exists>it \<in> set example_structure. kind it = Heading
           \<and> 1 \<le> length (py_split (py_strip (get_content it)))
           \<and> length (py_split (py_strip (get_content it))) \<le> 5
           \<and> (\<exists>p \<in> set (py_split (py_strip (get_content it))). starts_upper p))
   \<and> (\<exists>it \<in> set example_structure.
             re_search email_regex (py_strip (get_content it))
           \<or> re_search phone_regex (py_strip (get_content it))
           \<or> re_search linkedin_regex (py_lower (py_strip (get_content it)))
           \<or> re_search github_regex (py_lower (py_strip (get_content it))))"
  using gate_passes_iff[of example_structure] example_structure_passes
  unfolding list_all_iff by blast

text \<open>
  The claim as worded fails: the structure with the heading \<open>John doe\<close> and the text
  \<open>j@b.io\<close> passes the gate, and no heading of it has every token capitalised.
\<close>

theorem gate_name_counterexample:
  "fst (check_disqualifiers example_structure) \<and> \<not> list_ex spec_name_heading example_structure"
  using example_structure_passes example_structure_no_spec_name by simp

subsection \<open>Determinism\<close>

lemma ats_extract_skills_again:
  "ats_extract_skills env (snd (ats_extract_skills env b t)) t = ats_extract_skills env b t"
  unfolding ats_extract_skills_def
  by (auto simp: Let_def split: option.splits)

lemma content_score_again:
  "content_score env (self\<lparr>skill_extractor := snd (content_score env self t), debug_details := d\<rparr>) t
   = content_score env self t"
proof -
  have snd_eq: "snd (content_score env self t)
      = snd (ats_extract_skills env (skill_extractor self) (normalize t))"
    by (simp add: content_score_def Let_def split_beta)
  show ?thesis
    unfolding snd_eq
    by (simp add: content_score_def Let_def split_beta ats_extract_skills_again experience_bonus_def)
qed

text \<open>
  C8. A second call of \<open>total_score\<close> on the calculator left by the first call, with the
  same text and structure, returns the same integer. The collaborators are functions of
  their input.
\<close>

theorem total_score_deterministic:
  "fst (total_score env (snd (total_score env self resume_text resume_structure)) resume_text resume_structure)
   = fst (total_score env self resume_text resume_structure)"
proof -
  have upd: "content_score env (log_debug k v (self\<lparr>skill_extractor := snd (content_score env self resume_text)\<rparr>)) resume_text
      = content_score env self resume_text" for k v
    using content_score_again[where env=env and self=self and t=resume_text and d="(debug_details self)(k \<mapsto> v)"]
    by (simp add: log_debug_def)
  have same: "content_score env (log_debug k v self) resume_text = content_score env self resume_text" for k v
    by (simp add: content_score_def log_debug_def experience_bonus_def Let_def split_beta)
  show ?thesis
    unfolding total_score_def Let_def
    by (simp add: split_beta upd same split: option.splits)
qed

theorem total_score_deterministic_witness:
  "fst (total_score example_services
          (snd (total_score example_services example_calculator example_text example_structure))
          example_text example_structure)
   = fst (total_score example_services example_calculator example_text example_structure)"
  by (rule total_score_deterministic)

subsection \<open>Similarity failure\<close>

text \<open>
  C6. When the TF-IDF vectorisation or the cosine similarity raises, the similarity term
  is 0 and the content score is the one computed with a similarity of 0: the failure does
  not leave \<open>_content_score\<close>.
\<close>

theorem tfidf_failure_is_zero:
  assumes "tfidf_cosine env (jd_text self) (normalize resume_text) = None"
  shows "tfidf_component env (jd_text self) (normalize resume_text) = 0
       \<and> content_score env self resume_text
           = content_score (env\<lparr>tfidf_cosine := \<lambda>_ _. Some 0\<rparr>) self resume_text"
  using assms
  by (simp add: content_score_def tfidf_component_def keyword_component_def
        ats_extract_skills_def Let_def split_beta)

theorem tfidf_failure_is_zero_witness:
  "tfidf_cosine example_services (jd_text example_calculator) (normalize example_text) = None
   \<and> tfidf_component example_services (jd_text example_calculator) (normalize example_text) = 0
   \<and> fst (content_score example_services example_calculator example_text) = 7 / 25"
proof -
  have h: "tfidf_cosine example_services (jd_text example_calculator) (normalize example_text) = None"
    by (simp add: example_services_def)
  show ?thesis
    using tfidf_failure_is_zero[OF h] h example_content by simp
qed

section \<open>Properties of the structural advisor\<close>

lemma cp_char_of: "n < 256 \<Longrightarrow> cp (char_of n) = n"
  by (simp add: cp_def)

lemma lower_char_not_upper: "\<not> py_isupper (lower_char c)"
proof (cases "py_isupper c")
  case False
  then show ?thesis by (simp add: lower_char_def)
next
  case True
  then have small: "cp c + 32 < 256"
    by (auto simp: py_isupper_def ascii_upper_def in_range_def)
  have "cp (lower_char c) = cp c + 32"
    using True small by (simp add: lower_char_def cp_char_of)
  moreover have "cp c \<le> 90 \<or> 192 \<le> cp c"
    using True by (auto simp: py_isupper_def ascii_upper_def in_range_def)
  moreover have "65 \<le> cp c" "cp c \<le> 222" "cp c \<noteq> 215"
    using True by (auto simp: py_isupper_def ascii_upper_def in_range_def)
  ultimately show ?thesis
    by (auto simp: py_isupper_def ascii_upper_def in_range_def)
qed

lemma set_lstrip: "set (lstrip s) \<subseteq> set s"
  by (auto simp: lstrip_def dest: set_dropWhileD)

lemma set_py_strip: "set (py_strip s) \<subseteq> set s"
  using set_lstrip[of "rev (lstrip s)"] set_lstrip[of s] by (auto simp: py_strip_def)

lemma split_acc_words:
  "w \<in> set (split_acc acc s) \<Longrightarrow> w \<noteq> [] \<and> set w \<subseteq> set acc \<union> set s"
  by (induction acc s rule: split_acc.induct) (auto split: if_splits)

lemma py_split_words: "w \<in> set (py_split s) \<Longrightarrow> w \<noteq> [] \<and> set w \<subseteq> set s"
  using split_acc_words[of w "[]" s] by (simp add: py_split_def)

lemma lowered_never_name: "\<not> name_test (py_split (py_strip (py_lower h)))"
proof
  assume nt: "name_test (py_split (py_strip (py_lower h)))"
  let ?parts = "py_split (py_strip (py_lower h))"
  from nt have "?parts \<noteq> []" by (auto simp: name_test_def)
  then obtain w where w: "w \<in> set ?parts" by (cases ?parts) auto
  then have ne: "w \<noteq> []" and sub: "set w \<subseteq> set (py_strip (py_lower h))"
    using py_split_words[of w] by auto
  from nt w ne have "starts_upper w" by (auto simp: name_test_def list_all_iff)
  then obtain c where c: "c \<in> set w" "py_isupper c"
    using ne by (cases w) (auto simp: starts_upper_def)
  then have "c \<in> set (py_lower h)" using sub set_py_strip by blast
  then show False using c(2) lower_char_not_upper by (auto simp: py_lower_def)
qed

lemma blank_text_raises:
  assumes "resume_text \<noteq> []" "py_strip resume_text = []"
  shows "analyze_resume_structure env resume_text resume_structure = Inl ValueError"
  using assms by (simp add: analyze_resume_structure_def check_contact_info_def)

lemma analyze_returns_issues:
  assumes "resume_text = [] \<or> py_strip resume_text \<noteq> []"
  shows "\<exists>issues. analyze_resume_structure env resume_text resume_structure = Inr issues \<and> issues \<noteq> []"
  using assms
  by (auto simp: analyze_resume_structure_def check_contact_info_def check_sections_def
        check_content_quality_def Let_def)

text \<open>
  C7. On the text of one space and the empty structure \<open>analyze_resume_structure\<close>
  raises \<open>ValueError\<close>: the text passes the guard \<open>not resume_text\<close> and
  \<open>check_contact_info\<close> rejects it.
\<close>

theorem analyze_blank_text: "analyze_resume_structure example_services '' '' [] = Inl ValueError"
  by (simp add: analyze_resume_structure_def check_contact_info_def py_strip_def lstrip_def
        py_isspace_def in_range_def cp_def)

text \<open>
  C10, as the code has it. On a resume text with a character that is not whitespace and a
  structure with a heading of non-empty content, \<open>check_sections\<close> returns a list that
  holds the issue \<open>Name/contact information not at the top\<close>; no lowercased heading
  passes the name test.
\<close>

theorem name_issue_emitted:
  assumes "py_strip resume_text \<noteq> []"
      and "\<exists>item \<in> set resume_structure. kind item = Heading \<and> get_content item \<noteq> []"
  shows "(\<exists>issues. check_sections resume_text resume_structure = Inr issues
            \<and> name_not_at_top_issue \<in> set issues)
       \<and> \<not> name_test (py_split (py_strip (py_lower h)))"
proof -
  from assms(2) have "section_headings resume_structure \<noteq> []"
    by (auto simp: section_headings_def filter_empty_conv)
  then obtain first_heading rest where hs: "section_headings resume_structure = first_heading # rest"
    by (cases "section_headings resume_structure") auto
  then have "first_heading \<in> set (section_headings resume_structure)" by simp
  then obtain item where "first_heading = py_strip (py_lower (get_content item))"
    by (auto simp: section_headings_def)
  then have "\<not> name_test (py_split first_heading)"
    using lowered_never_name by simp
  then show ?thesis
    using assms(1) hs lowered_never_name[of h]
    by (simp add: check_sections_def Let_def)
qed

lemma strip_x: "py_strip ''x'' \<noteq> []"
  by code_simp

theorem name_issue_emitted_witness:
  "py_strip ''x'' \<noteq> []
   \<and> (\<exists>item \<in> set [el Heading ''John Doe'']. kind item = Heading \<and> get_content item \<noteq> [])
   \<and> (\<exists>issues. check_sections ''x'' [el Heading ''John Doe''] = Inr issues
          \<and> name_not_at_top_issue \<in> set issues)
   \<and> \<not> name_test (py_split (py_strip (py_lower ''John Doe'')))"
proof -
  have h: "\<exists>item \<in> set [el Heading ''John Doe'']. kind item = Heading \<and> get_content item \<noteq> []"
    by (simp add: el_def get_content_def)
  show ?thesis
    using name_issue_emitted[OF strip_x h, of "''John Doe''"] strip_x h by blast
qed

text \<open>
  The claim as worded fails on a text that is not empty and holds whitespace only:
  \<open>check_sections\<close> raises \<open>ValueError\<close> and emits nothing.
\<close>

theorem name_issue_counterexample:
  "'' '' \<noteq> [] \<and> kind (el Heading ''John Doe'') = Heading \<and> get_content (el Heading ''John Doe'') \<noteq> []
   \<and> check_sections '' '' [el Heading ''John Doe''] = Inl ValueError"
  by (simp add: check_sections_def el_def get_content_def py_strip_def lstrip_def
        py_isspace_def in_range_def cp_def)

section \<open>Properties of the skill gap analyzer\<close>
















section \<open>Properties of the skill extractors\<close>

lemma space_not_word: "py_isspace c \<Longrightarrow> \<not> re_word c"
proof -
  have u: "cp CHR ''_'' = 95" by (simp add: cp_def)
  show "py_isspace c \<Longrightarrow> \<not> re_word c"
    using u
    by (auto simp: py_isspace_def re_word_def py_isalnum_def ascii_alpha_def ascii_upper_def
          ascii_lower_def re_digit_def in_range_def)
qed

lemma strip_empty_blank: "py_strip s = [] \<Longrightarrow> \<forall>c \<in> set s. py_isspace c"
proof -
  assume "py_strip s = []"
  then have "\<forall>c \<in> set (lstrip s). py_isspace c"
    by (simp add: py_strip_def lstrip_def)
  moreover have "lstrip s = [] \<or> \<not> py_isspace (hd (lstrip s))"
    using hd_dropWhile[of py_isspace s] by (auto simp: lstrip_def)
  ultimately have "lstrip s = []" by (cases "lstrip s") auto
  then show ?thesis by (simp add: lstrip_def)
qed

lemma no_boundary_in_blank:
  assumes "\<forall>c \<in> set s. py_isspace c" "case prev of None \<Rightarrow> True | Some x \<Rightarrow> py_isspace x"
  shows "ends Bnd (prev, s) = []"
  using assms space_not_word
  by (cases s; cases prev) (auto simp: word_before_def word_after_def)

lemma findall_blank:
  assumes "\<forall>c \<in> set s. py_isspace c" "case prev of None \<Rightarrow> True | Some x \<Rightarrow> py_isspace x"
  shows "findall_from (Seq Bnd r) g post (prev, s) = []"
  using assms
proof (induction s arbitrary: prev)
  case Nil
  have "ends_group (Seq Bnd r) g post (prev, []) = []"
    using no_boundary_in_blank[of "[]" prev] Nil by (simp add: ends_group_def)
  then show ?case by (subst findall_from.simps) simp
next
  case (Cons x xs)
  have "ends_group (Seq Bnd r) g post (prev, x # xs) = []"
    using no_boundary_in_blank[of "x # xs" prev] Cons.prems by (simp add: ends_group_def)
  moreover have "findall_from (Seq Bnd r) g post (Some x, xs) = []"
    using Cons.IH[of "Some x"] Cons.prems by simp
  ultimately show ?case by (subst findall_from.simps) simp
qed

lemma pattern_tokens_blank: "py_strip t = [] \<Longrightarrow> pattern_tokens t = []"
  using findall_blank[of t None] strip_empty_blank[of t]
  by (simp add: pattern_tokens_def skill_patterns_def skill_intro_1_def skill_intro_2_def re_findall_def)

text \<open>
  C5, for \<open>extract_skills\<close> of \<open>suggest_skills.py\<close>. Whatever the collaborators do and
  whether or not the SkillNER extractor is in use, every token of the pattern layer is in
  the set the function returns.
\<close>

theorem pattern_layer_always_runs:
  "set (pattern_tokens text) \<subseteq> fst (extract_skills env extractor text)"
proof (cases "py_strip text = []")
  case True
  then show ?thesis by (simp add: pattern_tokens_blank)
next
  case False
  then have "text \<noteq> []" by (auto simp: py_strip_def lstrip_def)
  with False show ?thesis
    by (auto simp: extract_skills_def Let_def split_beta)
qed

theorem pattern_layer_always_runs_witness:
  "set (pattern_tokens ''skills: cobol'') \<subseteq> fst (extract_skills example_services True ''skills: cobol'')"
  by (rule pattern_layer_always_runs)

text \<open>
  The claim as worded fails for the extractor of the score aggregator: on the text
  \<open>skills: cobol\<close> the pattern layer yields \<open>cobol\<close>, and \<open>_extract_skills\<close> of
  \<open>ATSCalculator\<close>, which has no pattern layer, does not return it.
\<close>

theorem pattern_layer_counterexample:
  "''cobol'' \<in> set (pattern_tokens ''skills: cobol'')
   \<and> ''cobol'' \<notin> fst (ats_extract_skills example_services False ''skills: cobol'')"
  by code_simp

section \<open>Extending the resume text\<close>






















end
